theory Spec2Isabelle
  imports Main "HOL-Library.Word"
begin

section \<open>The wasmtime adapter of wasm-nginx-module (src/vm/wasmtime.c)\<close>

text \<open>
  The file drives the wasmtime C API and the nginx allocator and logger. None of these is
  part of the file, so the model takes their answers from an environment record (one field
  per external function, named as in C) and writes every external call the code performs,
  with its arguments and its answer, to a trace kept in the state. What the adapter itself
  decides (which call follows which, which pointer is passed to which destructor, what is
  returned) is then a property of the value returned and of the trace.
\<close>

subsection \<open>Data\<close>

text \<open>A non-null pointer is a natural number; a pointer that may be \<^verbatim>\<open>NULL\<close> is an option.\<close>

type_synonym ptr = nat

type_synonym wasmtime_instance_t = nat

text \<open>Engine errors and traps are objects that carry a message and have to be deleted.\<close>

datatype wasmtime_error = WasmtimeError (err_ptr: ptr) (err_message: string)

datatype wasm_trap = WasmTrap (trap_ptr: ptr) (trap_message: string)

text \<open>
  \<^verbatim>\<open>wasmtime_val_t\<close>: a kind tag (\<^verbatim>\<open>uint8_t\<close>) and a union, of which this file only
  touches the member \<^verbatim>\<open>of.i32\<close>.
\<close>

record wasmtime_val =
  kind :: "8 word"
  of_i32 :: "32 word"

definition WASMTIME_I32 :: "8 word" where
  "WASMTIME_I32 = 0"

record ngx_wasm_wasmtime_plugin_t =
  p_module :: ptr
  p_store :: ptr
  p_context :: ptr
  p_linker :: ptr
  p_instance :: wasmtime_instance_t

record ngx_wasm_host_api_t =
  api_name :: string
  api_cb :: ptr

text \<open>
  The status codes of nginx (\<^verbatim>\<open>ngx_core.h\<close>); \<^verbatim>\<open>ngx_int_t\<close> is \<^verbatim>\<open>intptr_t\<close>, modelled by
  its value.
\<close>

definition NGX_OK :: int where
  "NGX_OK = 0"

definition NGX_ERROR :: int where
  "NGX_ERROR = - 1"

definition NGX_DECLINED :: int where
  "NGX_DECLINED = - 5"

text \<open>
  The parameter-shape tags are macros of \<^verbatim>\<open>vm.h\<close>, which is not among the sources: they
  are parameters of the model.
\<close>

record vm_h =
  NGX_WASM_PARAM_VOID :: int
  NGX_WASM_PARAM_I32_I32 :: int

subsection \<open>The trace of external calls\<close>

datatype resource = Engine | Module | Store | WasiConfig | Linker | Functype | PluginRec
  | ErrorObj | TrapObj

datatype log_level = NGX_LOG_ERR | NGX_LOG_NOTICE | NGX_LOG_INFO | NGX_LOG_DEBUG

text \<open>A log line is the sequence of its pieces; the decimal rendering of \<^verbatim>\<open>%d\<close> is left symbolic.\<close>

datatype log_piece = Text string | Num int

text \<open>
  \<^item> \<open>New r p\<close>: the constructor of \<open>r\<close> was called and returned \<open>p\<close> (\<open>None\<close> is \<^verbatim>\<open>NULL\<close>):
    \<^verbatim>\<open>wasm_engine_new\<close>, \<^verbatim>\<open>wasmtime_store_new\<close>, \<^verbatim>\<open>wasi_config_new\<close>, \<^verbatim>\<open>wasmtime_linker_new\<close>,
    \<^verbatim>\<open>ngx_http_wasm_host_api_func\<close>, \<^verbatim>\<open>ngx_alloc\<close>;
  \<^item> \<open>Delete r p\<close>: the destructor of \<open>r\<close> was called on \<open>p\<close> (\<^verbatim>\<open>ngx_free\<close> for \<open>PluginRec\<close>);
  \<^item> \<open>ModuleNew e m\<close>: \<^verbatim>\<open>wasmtime_module_new\<close> returned the error \<open>e\<close> and left \<open>m\<close> in the
    out-parameter;
  \<^item> the other constructors are the calls of the same name, with their arguments and
    their answer.
\<close>

datatype event =
    Log log_level "log_piece list"
  | New resource "ptr option"
  | Delete resource ptr
  | ModuleNew "wasmtime_error option" "ptr option"
  | StoreContext ptr ptr
  | WasiInherit string ptr
  | SetWasi ptr ptr "wasmtime_error option"
  | DefineWasi ptr "wasmtime_error option"
  | DefineFunc ptr string ptr "wasmtime_error option"
  | Instantiate ptr ptr ptr "wasmtime_error option" "wasm_trap option"
  | ExportGet ptr wasmtime_instance_t string bool
  | FuncCall string "wasmtime_val list" nat
  | ErrorMessage ptr
  | TrapMessage ptr
  | ByteVecDelete string

subsection \<open>The environment\<close>

text \<open>
  What \<^verbatim>\<open>wasmtime_func_call\<close> leaves behind: the error returned, the trap stored through
  the out-parameter, and the content of \<^verbatim>\<open>results[0]\<close> after the call.
\<close>

record call_out =
  co_error :: "wasmtime_error option"
  co_trap :: "wasm_trap option"
  co_results0 :: wasmtime_val

text \<open>
  An export is modelled by what calling it does: from the parameters and the number of
  results asked for to the outcome.
\<close>

type_synonym wasmtime_extern = "wasmtime_val list \<Rightarrow> nat \<Rightarrow> call_out"

record wasmtime_env =
  wasm_engine_new :: "ptr option"
  wasmtime_module_new :: "ptr option \<Rightarrow> 8 word list \<Rightarrow> wasmtime_error option \<times> ptr option"
  wasmtime_store_new :: "ptr option \<Rightarrow> ptr option"
  wasmtime_store_context :: "ptr \<Rightarrow> ptr"
  wasi_config_new :: "ptr option"
  wasmtime_context_set_wasi :: "ptr \<Rightarrow> ptr \<Rightarrow> wasmtime_error option"
  wasmtime_linker_new :: "ptr option \<Rightarrow> ptr option"
  wasmtime_linker_define_wasi :: "ptr \<Rightarrow> wasmtime_error option"
  ngx_http_wasm_host_api_func :: "ngx_wasm_host_api_t \<Rightarrow> ptr"
  wasmtime_linker_define_func :: "ptr \<Rightarrow> nat \<Rightarrow> ngx_wasm_host_api_t \<Rightarrow> wasmtime_error option"
  ngx_alloc :: "ptr option"
  wasmtime_linker_instantiate ::
    "ptr \<Rightarrow> ptr \<Rightarrow> ptr \<Rightarrow> wasmtime_error option \<times> wasm_trap option \<times> wasmtime_instance_t"
  wasmtime_instance_export_get ::
    "ptr \<Rightarrow> wasmtime_instance_t \<Rightarrow> string \<Rightarrow> wasmtime_extern option"

subsection \<open>The state of the adapter\<close>

text \<open>
  The two file-level variables that change (\<^verbatim>\<open>vm_engine\<close> and the static parameter array
  \<^verbatim>\<open>param_int32_int32[2]\<close>, a pair here) and the trace.
\<close>

record vm_state =
  vm_engine :: "ptr option"
  param_int32_int32 :: "wasmtime_val \<times> wasmtime_val"
  trace :: "event list"

definition emits :: "event list \<Rightarrow> vm_state \<Rightarrow> vm_state" where
  "emits es s = s\<lparr>trace := trace s @ es\<rparr>"

definition emit :: "event \<Rightarrow> vm_state \<Rightarrow> vm_state" where
  "emit e s = emits [e] s"

text \<open>The state at program start: \<^verbatim>\<open>vm_engine\<close> is zero-initialised, the array as declared.\<close>

definition initial_state :: vm_state where
  "initial_state =
     \<lparr>vm_engine = None,
      param_int32_int32 =
        (\<lparr>kind = WASMTIME_I32, of_i32 = 0\<rparr>, \<lparr>kind = WASMTIME_I32, of_i32 = 0\<rparr>),
      trace = []\<rparr>"

subsection \<open>\<^verbatim>\<open>ngx_wasm_wasmtime_report_error\<close> (lines 22-39)\<close>

text \<open>
  The else branch hands \<open>trap\<close> to \<^verbatim>\<open>wasm_trap_message\<close> unchecked; with both pointers
  \<^verbatim>\<open>NULL\<close> the behaviour is undefined, which is the value \<open>None\<close>. When both are set only
  the error is looked at. The format \<^verbatim>\<open>"%s%*s"\<close> prints \<open>message\<close> and then the
  \<open>size\<close> bytes of the extracted text.
\<close>

definition ngx_wasm_wasmtime_report_error ::
  "string \<Rightarrow> wasmtime_error option \<Rightarrow> wasm_trap option \<Rightarrow> vm_state \<Rightarrow> vm_state option" where
  "ngx_wasm_wasmtime_report_error message error trap s =
     (case error of
        Some e \<Rightarrow>
          Some (emits [ErrorMessage (err_ptr e), Delete ErrorObj (err_ptr e),
                       Log NGX_LOG_ERR [Text message, Text (err_message e)],
                       ByteVecDelete (err_message e)] s)
      | None \<Rightarrow>
          (case trap of
             Some t \<Rightarrow>
               Some (emits [TrapMessage (trap_ptr t), Delete TrapObj (trap_ptr t),
                            Log NGX_LOG_ERR [Text message, Text (trap_message t)],
                            ByteVecDelete (trap_message t)] s)
           | None \<Rightarrow> None))"

subsection \<open>\<^verbatim>\<open>ngx_wasm_wasmtime_init\<close> and \<^verbatim>\<open>ngx_wasm_wasmtime_cleanup\<close> (lines 42-65)\<close>

definition ngx_wasm_wasmtime_init :: "wasmtime_env \<Rightarrow> vm_state \<Rightarrow> int \<times> vm_state" where
  "ngx_wasm_wasmtime_init env s0 =
     (let s = emit (Log NGX_LOG_NOTICE [Text ''init wasm vm: wasmtime'']) s0;
          s = (emit (New Engine (wasm_engine_new env)) s)\<lparr>vm_engine := wasm_engine_new env\<rparr>
      in if vm_engine s = None then (NGX_DECLINED, s) else (NGX_OK, s))"

definition ngx_wasm_wasmtime_cleanup :: "vm_state \<Rightarrow> vm_state" where
  "ngx_wasm_wasmtime_cleanup s =
     (case vm_engine s of
        None \<Rightarrow> s
      | Some e \<Rightarrow>
          emits [Log NGX_LOG_INFO [Text ''cleanup wasm vm: wasmtime''], Delete Engine e] s)"

subsection \<open>\<^verbatim>\<open>ngx_wasm_wasmtime_load\<close> (lines 68-174)\<close>

text \<open>The four rollback labels; each falls through to the next.\<close>

definition free_module :: "ptr \<Rightarrow> vm_state \<Rightarrow> vm_state" where
  "free_module module s = emit (Delete Module module) s"

definition free_store :: "ptr \<Rightarrow> ptr \<Rightarrow> vm_state \<Rightarrow> vm_state" where
  "free_store store module s = free_module module (emit (Delete Store store) s)"

definition free_config :: "ptr \<Rightarrow> ptr \<Rightarrow> ptr \<Rightarrow> vm_state \<Rightarrow> vm_state" where
  "free_config wasi_config store module s =
     free_store store module (emit (Delete WasiConfig wasi_config) s)"

definition free_linker :: "ptr \<Rightarrow> ptr \<Rightarrow> ptr \<Rightarrow> ptr \<Rightarrow> vm_state \<Rightarrow> vm_state" where
  "free_linker linker wasi_config store module s =
     free_config wasi_config store module (emit (Delete Linker linker) s)"

text \<open>
  The loop over \<^verbatim>\<open>host_apis\<close> (lines 121-139). The table is a list here; the loop stops at
  the first entry with an empty name (the terminator of the C array) and, in the model,
  also where the list ends. It returns the error of the definition that failed, if one did.
\<close>

fun define_host_apis ::
  "wasmtime_env \<Rightarrow> ptr \<Rightarrow> nat \<Rightarrow> ngx_wasm_host_api_t list \<Rightarrow> vm_state
     \<Rightarrow> wasmtime_error option \<times> vm_state" where
  "define_host_apis env linker i [] s = (None, s)"
| "define_host_apis env linker i (api # rest) s =
     (if api_name api = [] then (None, s)
      else
        let s = emit (Log NGX_LOG_DEBUG [Text ''define wasm host API '', Text (api_name api)]) s;
            f = ngx_http_wasm_host_api_func env api;
            s = emit (New Functype (Some f)) s;
            error = wasmtime_linker_define_func env linker i api;
            s = emit (DefineFunc linker (api_name api) f error) s;
            s = emit (Delete Functype f) s
        in case error of
             Some e \<Rightarrow> (Some e, s)
           | None \<Rightarrow> define_host_apis env linker (Suc i) rest s)"

text \<open>
  The result is \<open>None\<close> for undefined behaviour (never the case, see \<open>load_defined\<close>),
  otherwise the pointer returned (with the content of the record it points to) and the
  state.
\<close>

definition ngx_wasm_wasmtime_load ::
  "wasmtime_env \<Rightarrow> ngx_wasm_host_api_t list \<Rightarrow> 8 word list \<Rightarrow> vm_state
     \<Rightarrow> ((ptr \<times> ngx_wasm_wasmtime_plugin_t) option \<times> vm_state) option" where
  "ngx_wasm_wasmtime_load env host_apis bytecode s0 =
     (case wasmtime_module_new env (vm_engine s0) bytecode of (error, module_opt) \<Rightarrow>
     (let s = emit (ModuleNew error module_opt) s0 in
     (case module_opt of None \<Rightarrow> Some (None, s) | Some module \<Rightarrow>
     (let store_opt = wasmtime_store_new env (vm_engine s);
          s = emit (New Store store_opt) s in
     (case store_opt of None \<Rightarrow> Some (None, free_module module s) | Some store \<Rightarrow>
     (let context = wasmtime_store_context env store;
          s = emit (StoreContext store context) s;
          config_opt = wasi_config_new env;
          s = emit (New WasiConfig config_opt) s in
     (case config_opt of None \<Rightarrow> Some (None, free_store store module s) | Some wasi_config \<Rightarrow>
     (let s = emits [WasiInherit ''argv'' wasi_config, WasiInherit ''env'' wasi_config,
                     WasiInherit ''stdin'' wasi_config, WasiInherit ''stdout'' wasi_config,
                     WasiInherit ''stderr'' wasi_config] s;
          error = wasmtime_context_set_wasi env context wasi_config;
          s = emit (SetWasi context wasi_config error) s in
     (case error of
        Some e \<Rightarrow>
          map_option (\<lambda>s. (None, free_config wasi_config store module s))
            (ngx_wasm_wasmtime_report_error ''failed to init WASI: '' (Some e) None s)
      | None \<Rightarrow>
     (let linker_opt = wasmtime_linker_new env (vm_engine s);
          s = emit (New Linker linker_opt) s in
     (case linker_opt of
        None \<Rightarrow> Some (None, free_config wasi_config store module s)
      | Some linker \<Rightarrow>
     (let error = wasmtime_linker_define_wasi env linker;
          s = emit (DefineWasi linker error) s in
     (case error of
        Some e \<Rightarrow>
          map_option (\<lambda>s. (None, free_linker linker wasi_config store module s))
            (ngx_wasm_wasmtime_report_error ''failed to init WASI: '' (Some e) None s)
      | None \<Rightarrow>
     (case define_host_apis env linker 0 host_apis s of (error, s) \<Rightarrow>
     (case error of
        Some e \<Rightarrow>
          map_option (\<lambda>s. (None, free_linker linker wasi_config store module s))
            (ngx_wasm_wasmtime_report_error ''failed to define API'' (Some e) None s)
      | None \<Rightarrow>
     (let plugin_opt = ngx_alloc env;
          s = emit (New PluginRec plugin_opt) s in
     (case plugin_opt of
        None \<Rightarrow> Some (None, free_linker linker wasi_config store module s)
      | Some plugin \<Rightarrow>
     (case wasmtime_linker_instantiate env linker context module of (error, trap, inst) \<Rightarrow>
     (let s = emit (Instantiate linker context module error trap) s in
     (case error of
        Some e \<Rightarrow>
          map_option (\<lambda>s. (None, free_linker linker wasi_config store module s))
            (ngx_wasm_wasmtime_report_error ''failed to new instance: '' (Some e) None s)
      | None \<Rightarrow>
     (let s = emit (Log NGX_LOG_INFO [Text ''loaded wasm plugin'']) s in
      Some (Some (plugin,
                  \<lparr>p_module = module, p_store = store, p_context = context,
                   p_linker = linker, p_instance = inst\<rparr>), s)
     )))))))))))))))))))))"

subsection \<open>\<^verbatim>\<open>ngx_wasm_wasmtime_unload\<close> (lines 177-189)\<close>

definition ngx_wasm_wasmtime_unload ::
  "ptr \<times> ngx_wasm_wasmtime_plugin_t \<Rightarrow> vm_state \<Rightarrow> vm_state" where
  "ngx_wasm_wasmtime_unload data s =
     (case data of (p, plugin) \<Rightarrow>
        emits [Delete Module (p_module plugin), Delete Store (p_store plugin),
               Delete Linker (p_linker plugin), Delete PluginRec p,
               Log NGX_LOG_INFO [Text ''unloaded wasm plugin'']] s)"

subsection \<open>\<^verbatim>\<open>ngx_wasm_wasmtime_call\<close> (lines 192-258)\<close>

text \<open>
  The switch on \<open>param_type\<close> (lines 218-232). The variadic arguments are a list of
  \<^verbatim>\<open>int32_t\<close>; \<^verbatim>\<open>va_arg\<close> past its end is undefined behaviour (\<open>None\<close>). Otherwise the
  result is either the state after the error log of the default case (\<open>Inl\<close>), or the
  parameter vector passed on with the state (\<open>Inr\<close>): the static array, after its two
  \<^verbatim>\<open>of.i32\<close> members were assigned, or no parameters (\<open>params = NULL\<close>, \<open>param_num = 0\<close>).
\<close>

definition switch_param_type ::
  "vm_h \<Rightarrow> int \<Rightarrow> 32 word list \<Rightarrow> vm_state
     \<Rightarrow> (vm_state + wasmtime_val list \<times> vm_state) option" where
  "switch_param_type K param_type args s =
     (if param_type = NGX_WASM_PARAM_I32_I32 K then
        (case args of
           a # b # _ \<Rightarrow>
             let params = param_int32_int32 s;
                 params = ((fst params)\<lparr>of_i32 := a\<rparr>, snd params);
                 params = (fst params, (snd params)\<lparr>of_i32 := b\<rparr>)
             in Some (Inr ([fst params, snd params], s\<lparr>param_int32_int32 := params\<rparr>))
         | _ \<Rightarrow> None)
      else if param_type = NGX_WASM_PARAM_VOID K then Some (Inr ([], s))
      else
        Some (Inl (emit (Log NGX_LOG_ERR [Text ''unknown param type: '', Num param_type]) s)))"

text \<open>Lines 234-257: the invocation and the handling of its outcome.\<close>

definition invoke_func ::
  "string \<Rightarrow> wasmtime_extern \<Rightarrow> bool \<Rightarrow> wasmtime_val list \<Rightarrow> vm_state
     \<Rightarrow> (int \<times> vm_state) option" where
  "invoke_func name func has_result params s0 =
     (let out = func params (if has_result then 1 else 0);
          s = emit (FuncCall name params (if has_result then 1 else 0)) s0
      in if co_error out \<noteq> None \<or> co_trap out \<noteq> None then
           map_option (\<lambda>s. (NGX_ERROR, s))
             (ngx_wasm_wasmtime_report_error ''failed to call function: ''
                (co_error out) (co_trap out) s)
         else if \<not> has_result then
           Some (NGX_OK, emit (Log NGX_LOG_DEBUG [Text ''wasmtime call function done'']) s)
         else if kind (co_results0 out) \<noteq> WASMTIME_I32 then
           Some (NGX_ERROR,
                 emit (Log NGX_LOG_ERR [Text ''function returns unexpected type: '',
                                        Num (uint (kind (co_results0 out)))]) s)
         else
           let rc = sint (of_i32 (co_results0 out))
           in Some (rc, emit (Log NGX_LOG_DEBUG [Text ''wasmtime call function result: '',
                                                 Num rc]) s))"

definition ngx_wasm_wasmtime_call ::
  "vm_h \<Rightarrow> wasmtime_env \<Rightarrow> ngx_wasm_wasmtime_plugin_t \<Rightarrow> string \<Rightarrow> bool \<Rightarrow> int
     \<Rightarrow> 32 word list \<Rightarrow> vm_state \<Rightarrow> (int \<times> vm_state) option" where
  "ngx_wasm_wasmtime_call K env plugin name has_result param_type args s0 =
     (let s = emit (Log NGX_LOG_DEBUG [Text ''wasmtime call function '', Text name]) s0;
          found = wasmtime_instance_export_get env (p_context plugin) (p_instance plugin) name;
          s = emit (ExportGet (p_context plugin) (p_instance plugin) name (found \<noteq> None)) s
      in case found of
           None \<Rightarrow>
             Some (NGX_OK,
                   emit (Log NGX_LOG_DEBUG [Text ''wasmtime function '', Text name,
                                            Text '' not defined'']) s)
         | Some func \<Rightarrow>
             (case switch_param_type K param_type args s of
                None \<Rightarrow> None
              | Some (Inl s) \<Rightarrow> Some (NGX_ERROR, s)
              | Some (Inr (params, s)) \<Rightarrow> invoke_func name func has_result params s))"

subsection \<open>A concrete environment\<close>

text \<open>
  Inputs at which the functions are evaluated below. The engine of \<open>env_ok\<close> compiles
  every bytecode that starts with the four bytes of the WebAssembly magic number and
  rejects the others with an error object; every later step succeeds. Its instance has
  four exports: \<open>add\<close> (the sum of two \<open>i32\<close>), \<open>minus_one\<close> (the \<open>i32\<close> constant \<open>-1\<close>),
  \<open>wide\<close> (a result of kind 1, \<open>i64\<close>) and \<open>unreachable\<close> (a trap).
\<close>

definition wasm_magic :: "8 word list" where
  "wasm_magic = [0x00, 0x61, 0x73, 0x6D]"

definition i32_val :: "32 word \<Rightarrow> wasmtime_val" where
  "i32_val w = \<lparr>kind = WASMTIME_I32, of_i32 = w\<rparr>"

definition returned :: "wasmtime_val \<Rightarrow> call_out" where
  "returned v = \<lparr>co_error = None, co_trap = None, co_results0 = v\<rparr>"

definition guest_add :: wasmtime_extern where
  "guest_add params n =
     (case params of
        [x, y] \<Rightarrow> returned (i32_val (of_i32 x + of_i32 y))
      | _ \<Rightarrow>
          \<lparr>co_error = Some (WasmtimeError 30 ''expected 2 arguments''), co_trap = None,
           co_results0 = i32_val 0\<rparr>)"

definition guest_minus_one :: wasmtime_extern where
  "guest_minus_one params n = returned (i32_val (- 1))"

definition guest_wide :: wasmtime_extern where
  "guest_wide params n = returned \<lparr>kind = 1, of_i32 = 7\<rparr>"

definition guest_unreachable :: wasmtime_extern where
  "guest_unreachable params n =
     \<lparr>co_error = None, co_trap = Some (WasmTrap 31 ''wasm trap: unreachable''),
      co_results0 = i32_val 0\<rparr>"

definition env_ok :: wasmtime_env where
  "env_ok =
     \<lparr>wasm_engine_new = Some 1,
      wasmtime_module_new =
        (\<lambda>engine bytecode.
           if take 4 bytecode = wasm_magic then (None, Some 2)
           else (Some (WasmtimeError 20 ''failed to parse WebAssembly module''), None)),
      wasmtime_store_new = (\<lambda>engine. Some 3),
      wasmtime_store_context = (\<lambda>store. 4),
      wasi_config_new = Some 5,
      wasmtime_context_set_wasi = (\<lambda>context config. None),
      wasmtime_linker_new = (\<lambda>engine. Some 6),
      wasmtime_linker_define_wasi = (\<lambda>linker. None),
      ngx_http_wasm_host_api_func = (\<lambda>api. 7),
      wasmtime_linker_define_func = (\<lambda>linker i api. None),
      ngx_alloc = Some 8,
      wasmtime_linker_instantiate = (\<lambda>linker context module. (None, None, 9)),
      wasmtime_instance_export_get =
        (\<lambda>context inst name.
           if name = ''add'' then Some guest_add
           else if name = ''minus_one'' then Some guest_minus_one
           else if name = ''wide'' then Some guest_wide
           else if name = ''unreachable'' then Some guest_unreachable
           else None)\<rparr>"

text \<open>The same engine when the module has an import that no definition of the linker meets.\<close>

definition env_unknown_import :: wasmtime_env where
  "env_unknown_import =
     env_ok\<lparr>wasmtime_linker_instantiate :=
              (\<lambda>linker context module.
                 (Some (WasmtimeError 21 ''unknown import''), None, 0))\<rparr>"

text \<open>The same engine when no linker can be allocated.\<close>

definition env_no_linker :: wasmtime_env where
  "env_no_linker = env_ok\<lparr>wasmtime_linker_new := (\<lambda>engine. None)\<rparr>"

text \<open>The same engine when the start function of the module traps.\<close>

definition env_start_traps :: wasmtime_env where
  "env_start_traps =
     env_ok\<lparr>wasmtime_linker_instantiate :=
              (\<lambda>linker context module.
                 (None, Some (WasmTrap 22 ''wasm trap: unreachable''), 0))\<rparr>"

text \<open>
  The same engine when a failed \<^verbatim>\<open>wasmtime_module_new\<close> returns its error and does not write
  the out-parameter, and the local \<^verbatim>\<open>module\<close>, declared without an initialiser (line 73),
  holds the non-null value 99.
\<close>

definition env_module_unwritten :: wasmtime_env where
  "env_module_unwritten =
     env_ok\<lparr>wasmtime_module_new :=
              (\<lambda>engine bytecode.
                 if take 4 bytecode = wasm_magic then (None, Some 2)
                 else (Some (WasmtimeError 20 ''failed to parse WebAssembly module''),
                       Some 99))\<rparr>"

text \<open>The state after a successful \<open>init\<close>, the plugin \<open>load\<close> returns, a table of one API.\<close>

definition running :: vm_state where
  "running = initial_state\<lparr>vm_engine := Some 1\<rparr>"

definition plugin_ok :: ngx_wasm_wasmtime_plugin_t where
  "plugin_ok = \<lparr>p_module = 2, p_store = 3, p_context = 4, p_linker = 6, p_instance = 9\<rparr>"

definition one_api :: "ngx_wasm_host_api_t list" where
  "one_api = [\<lparr>api_name = ''proxy_log'', api_cb = 40\<rparr>, \<lparr>api_name = [], api_cb = 0\<rparr>]"

definition tags :: vm_h where
  "tags = \<lparr>NGX_WASM_PARAM_VOID = 1, NGX_WASM_PARAM_I32_I32 = 2\<rparr>"

text \<open>
  The events of the loop over \<^verbatim>\<open>host_apis\<close>: its debug line, the signature object made and
  deleted, the definition in the linker.
\<close>

fun host_api_event :: "event \<Rightarrow> bool" where
  "host_api_event (Log level line) = (level = NGX_LOG_DEBUG)"
| "host_api_event (New r p) = (r = Functype)"
| "host_api_event (Delete r p) = (r = Functype)"
| "host_api_event (DefineFunc linker name f error) = True"
| "host_api_event _ = False"

section \<open>Properties\<close>

lemmas trace_defs = emit_def emits_def free_module_def free_store_def free_config_def
  free_linker_def ngx_wasm_wasmtime_report_error_def

lemmas env_defs = env_ok_def env_unknown_import_def env_no_linker_def env_start_traps_def
  env_module_unwritten_def one_api_def running_def initial_state_def wasm_magic_def plugin_ok_def tags_def

lemmas guest_defs = guest_add_def guest_minus_one_def guest_wide_def guest_unreachable_def
  returned_def i32_val_def WASMTIME_I32_def

subsection \<open>The reporter and the loop\<close>

lemma report_error_some:
  "ngx_wasm_wasmtime_report_error message (Some e) trap s =
     Some (emits [ErrorMessage (err_ptr e), Delete ErrorObj (err_ptr e),
                  Log NGX_LOG_ERR [Text message, Text (err_message e)],
                  ByteVecDelete (err_message e)] s)"
  by (simp add: ngx_wasm_wasmtime_report_error_def)

text \<open>
  With an error or a trap in hand the reporter asks the object for its message, deletes
  the object, logs the caller's text followed by the message, and frees the message.
\<close>

theorem report_error_surfaces:
  "(error = Some e \<longrightarrow>
      ngx_wasm_wasmtime_report_error message error trap s =
        Some (emits [ErrorMessage (err_ptr e), Delete ErrorObj (err_ptr e),
                     Log NGX_LOG_ERR [Text message, Text (err_message e)],
                     ByteVecDelete (err_message e)] s)) \<and>
   (error = None \<and> trap = Some t \<longrightarrow>
      ngx_wasm_wasmtime_report_error message error trap s =
        Some (emits [TrapMessage (trap_ptr t), Delete TrapObj (trap_ptr t),
                     Log NGX_LOG_ERR [Text message, Text (trap_message t)],
                     ByteVecDelete (trap_message t)] s))"
  by (simp add: ngx_wasm_wasmtime_report_error_def)

theorem report_error_surfaces_witness:
  "ngx_wasm_wasmtime_report_error ''failed to init WASI: ''
     (Some (WasmtimeError 20 ''no memory'')) None running =
     Some (emits [ErrorMessage 20, Delete ErrorObj 20,
                  Log NGX_LOG_ERR [Text ''failed to init WASI: '', Text ''no memory''],
                  ByteVecDelete ''no memory''] running) \<and>
   ngx_wasm_wasmtime_report_error ''failed to call function: ''
     None (Some (WasmTrap 31 ''wasm trap: unreachable'')) running =
     Some (emits [TrapMessage 31, Delete TrapObj 31,
                  Log NGX_LOG_ERR [Text ''failed to call function: '',
                                   Text ''wasm trap: unreachable''],
                  ByteVecDelete ''wasm trap: unreachable''] running)"
  using report_error_surfaces [where error = "Some (WasmtimeError 20 ''no memory'')"
          and e = "WasmtimeError 20 ''no memory''" and trap = None
          and message = "''failed to init WASI: ''" and s = running]
        report_error_surfaces [where error = None
          and trap = "Some (WasmTrap 31 ''wasm trap: unreachable'')"
          and t = "WasmTrap 31 ''wasm trap: unreachable''"
          and message = "''failed to call function: ''" and s = running]
  by simp

lemma define_host_apis_other_events:
  "\<not> host_api_event e \<Longrightarrow>
   e \<in> set (trace (snd (define_host_apis env linker i apis s))) \<longleftrightarrow> e \<in> set (trace s)"
  by (induction apis arbitrary: i s) (auto simp add: Let_def trace_defs split: option.split)

lemma define_host_apis_other_events_pair:
  "define_host_apis env linker i apis s = (err, s') \<Longrightarrow> \<not> host_api_event e \<Longrightarrow>
   e \<in> set (trace s') \<longleftrightarrow> e \<in> set (trace s)"
  using define_host_apis_other_events [of e env linker i apis s] by simp

subsection \<open>Load\<close>

text \<open>
  Load is defined on every input: the reporter is only ever called with an error in hand.
\<close>

theorem load_defined: "ngx_wasm_wasmtime_load env host_apis bytecode s \<noteq> None"
  by (simp add: ngx_wasm_wasmtime_load_def Let_def report_error_some
           split: prod.split option.split)

text \<open>
  When load returns a record, its fields are the module that was compiled, the store that
  was created and its context, the linker that was created, and the instance written by an
  instantiation that returned no error; the pointer is the one the allocator gave.
\<close>

theorem load_success_fields:
  assumes "ngx_wasm_wasmtime_load env host_apis bytecode s = Some (Some (p, plugin), s')"
  shows "snd (wasmtime_module_new env (vm_engine s) bytecode) = Some (p_module plugin) \<and>
         wasmtime_store_new env (vm_engine s) = Some (p_store plugin) \<and>
         p_context plugin = wasmtime_store_context env (p_store plugin) \<and>
         wasmtime_linker_new env (vm_engine s) = Some (p_linker plugin) \<and>
         ngx_alloc env = Some p \<and>
         fst (wasmtime_linker_instantiate env (p_linker plugin) (p_context plugin)
                (p_module plugin)) = None \<and>
         snd (snd (wasmtime_linker_instantiate env (p_linker plugin) (p_context plugin)
                (p_module plugin))) = p_instance plugin"
  using assms
  by (auto simp add: ngx_wasm_wasmtime_load_def Let_def trace_defs
           split: prod.splits option.splits)

theorem load_success_fields_witness:
  "map_option fst (ngx_wasm_wasmtime_load env_ok one_api wasm_magic running) =
     Some (Some (8, plugin_ok)) \<and>
   snd (wasmtime_module_new env_ok (vm_engine running) wasm_magic) = Some 2 \<and>
   wasmtime_store_new env_ok (vm_engine running) = Some 3 \<and>
   wasmtime_store_context env_ok 3 = 4 \<and>
   wasmtime_linker_new env_ok (vm_engine running) = Some 6 \<and>
   ngx_alloc env_ok = Some 8 \<and>
   wasmtime_linker_instantiate env_ok 6 4 2 = (None, None, 9)"
proof -
  obtain s' where l:
    "ngx_wasm_wasmtime_load env_ok one_api wasm_magic running = Some (Some (8, plugin_ok), s')"
    by (simp add: ngx_wasm_wasmtime_load_def env_defs Let_def trace_defs)
  from load_success_fields [OF l] l show ?thesis
    by (simp add: plugin_ok_def env_ok_def)
qed

text \<open>Load never hands the record it allocated back to the allocator.\<close>

theorem load_never_frees_plugin_record:
  assumes "ngx_wasm_wasmtime_load env host_apis bytecode s = Some (r, s')"
  shows "Delete PluginRec p \<in> set (trace s') \<longleftrightarrow> Delete PluginRec p \<in> set (trace s)"
  using assms
  by (auto simp add: ngx_wasm_wasmtime_load_def Let_def trace_defs
             define_host_apis_other_events_pair
           split: prod.splits option.splits)

theorem load_never_frees_plugin_record_witness:
  "Delete PluginRec 8 \<notin>
     set (trace (snd (the (ngx_wasm_wasmtime_load env_unknown_import one_api wasm_magic
                             running))))"
proof -
  obtain r s' where l:
    "ngx_wasm_wasmtime_load env_unknown_import one_api wasm_magic running = Some (r, s')"
    by (simp add: ngx_wasm_wasmtime_load_def env_defs Let_def trace_defs)
  from load_never_frees_plugin_record [OF l, of 8] l show ?thesis
    by (simp add: running_def initial_state_def)
qed

text \<open>
  Whenever load fails after it has passed the configuration to
  \<^verbatim>\<open>wasmtime_context_set_wasi\<close>, it also calls \<^verbatim>\<open>wasi_config_delete\<close> on it.
\<close>

theorem load_failure_deletes_attached_config:
  assumes "ngx_wasm_wasmtime_load env host_apis bytecode s = Some (None, s')"
    and "SetWasi context config error \<in> set (trace s')"
    and "SetWasi context config error \<notin> set (trace s)"
  shows "Delete WasiConfig config \<in> set (trace s')"
  using assms
  by (auto simp add: ngx_wasm_wasmtime_load_def Let_def trace_defs
             define_host_apis_other_events_pair
           split: prod.splits option.splits)

theorem load_failure_deletes_attached_config_witness:
  "SetWasi 4 5 None \<in>
     set (trace (snd (the (ngx_wasm_wasmtime_load env_unknown_import [] wasm_magic running)))) \<and>
   Delete WasiConfig 5 \<in>
     set (trace (snd (the (ngx_wasm_wasmtime_load env_unknown_import [] wasm_magic running))))"
proof -
  obtain s' where l:
    "ngx_wasm_wasmtime_load env_unknown_import [] wasm_magic running = Some (None, s')"
    and m: "SetWasi 4 5 None \<in> set (trace s')"
    by (simp add: ngx_wasm_wasmtime_load_def env_defs Let_def trace_defs)
  have "SetWasi 4 5 None \<notin> set (trace running)"
    by (simp add: running_def initial_state_def)
  from load_failure_deletes_attached_config [OF l m this] l m show ?thesis
    by simp
qed

text \<open>
  Claim C1. Load either returns a record whose module, store, context, linker and instance
  are valid and linked, or fails with nothing retained; in particular a failure of the
  instantiation releases the linker, the configuration, the store, the module and the
  record itself.

  The code does not do the last: at a module with an import the linker cannot meet,
  \<^verbatim>\<open>ngx_alloc\<close> has returned the record 8, the instantiation returns an error, and the
  rollback deletes linker, configuration, store and module. No \<^verbatim>\<open>ngx_free\<close> of 8 is among
  the calls.
\<close>

theorem load_unknown_import_keeps_plugin_record:
  "ngx_wasm_wasmtime_load env_unknown_import one_api wasm_magic running =
     Some (None,
       emits [ModuleNew None (Some 2), New Store (Some 3), StoreContext 3 4,
         New WasiConfig (Some 5), WasiInherit ''argv'' 5,
         WasiInherit ''env'' 5, WasiInherit ''stdin'' 5,
         WasiInherit ''stdout'' 5, WasiInherit ''stderr'' 5,
         SetWasi 4 5 None, New Linker (Some 6), DefineWasi 6 None,
         Log NGX_LOG_DEBUG [Text ''define wasm host API '', Text ''proxy_log''],
         New Functype (Some 7), DefineFunc 6 ''proxy_log'' 7 None,
         Delete Functype 7, New PluginRec (Some 8),
         Instantiate 6 4 2 (Some (WasmtimeError 21 ''unknown import'')) None,
         ErrorMessage 21, Delete ErrorObj 21,
         Log NGX_LOG_ERR [Text ''failed to new instance: '', Text ''unknown import''],
         ByteVecDelete ''unknown import'', Delete Linker 6,
         Delete WasiConfig 5, Delete Store 3, Delete Module 2] running)"
  by (simp add: ngx_wasm_wasmtime_load_def env_defs Let_def trace_defs)

text \<open>
  Claim C2. During load every intermediate resource (module, store, configuration, linker)
  is released exactly once, either by a later step that takes ownership or by the rollback,
  never both; once the configuration is attached to the store context no failure path
  releases it again.

  The code does both: \<^verbatim>\<open>wasmtime_context_set_wasi\<close> has succeeded on configuration 5
  (\<open>SetWasi 4 5 None\<close>), the linker cannot be created, and the rollback enters at
  \<^verbatim>\<open>free_config\<close>, which calls \<^verbatim>\<open>wasi_config_delete\<close> on 5 and then deletes the store that
  holds it.
\<close>

theorem load_no_linker_deletes_attached_config:
  "ngx_wasm_wasmtime_load env_no_linker one_api wasm_magic running =
     Some (None,
       emits [ModuleNew None (Some 2), New Store (Some 3), StoreContext 3 4,
         New WasiConfig (Some 5), WasiInherit ''argv'' 5,
         WasiInherit ''env'' 5, WasiInherit ''stdin'' 5,
         WasiInherit ''stdout'' 5, WasiInherit ''stderr'' 5,
         SetWasi 4 5 None, New Linker None,
         Delete WasiConfig 5, Delete Store 3, Delete Module 2] running)"
  by (simp add: ngx_wasm_wasmtime_load_def env_defs Let_def trace_defs)

text \<open>
  Claim C5. Every engine error and every trap goes through the reporter before it is
  dropped: the reporter extracts the message, logs it after the caller's text, and
  releases the object; no failure path of load or call drops one unreported.

  Two paths of load do. When the compilation fails, the error that
  \<^verbatim>\<open>wasmtime_module_new\<close> returned is neither logged nor deleted: the trace ends with the
  call. When the start function traps, the instantiation returns no error and a trap;
  only the error is tested, so the trap is neither logged nor deleted and a record is
  returned.
\<close>

theorem load_drops_compile_error_and_start_trap:
  "ngx_wasm_wasmtime_load env_ok one_api [] running =
     Some (None,
       emits [ModuleNew (Some (WasmtimeError 20 ''failed to parse WebAssembly module'')) None]
         running)
   \<and> ngx_wasm_wasmtime_load env_start_traps one_api wasm_magic running =
     Some (Some (8, plugin_ok\<lparr>p_instance := 0\<rparr>),
       emits [ModuleNew None (Some 2), New Store (Some 3), StoreContext 3 4,
         New WasiConfig (Some 5), WasiInherit ''argv'' 5,
         WasiInherit ''env'' 5, WasiInherit ''stdin'' 5,
         WasiInherit ''stdout'' 5, WasiInherit ''stderr'' 5,
         SetWasi 4 5 None, New Linker (Some 6), DefineWasi 6 None,
         Log NGX_LOG_DEBUG [Text ''define wasm host API '', Text ''proxy_log''],
         New Functype (Some 7), DefineFunc 6 ''proxy_log'' 7 None,
         Delete Functype 7, New PluginRec (Some 8),
         Instantiate 6 4 2 None (Some (WasmTrap 22 ''wasm trap: unreachable'')),
         Log NGX_LOG_INFO [Text ''loaded wasm plugin'']] running)"
  by (simp add: ngx_wasm_wasmtime_load_def env_defs Let_def trace_defs)

text \<open>
  Claim C6. For every invalid bytecode (the compilation fails), load returns the compile
  failure and asks for no store and no linker.

  The code does not test whether the compilation failed: it drops the error that
  \<^verbatim>\<open>wasmtime_module_new\<close> returned and tests the local \<^verbatim>\<open>module\<close> (line 82), which has no
  initialiser. At an empty buffer, with an engine that returns the error and leaves the
  out-parameter as it was (99), load goes on: it creates the store, the configuration and
  the linker, instantiates the pointer 99 and returns a record whose module is 99. Every
  other step of load tests the error it was given.
\<close>

theorem load_compile_error_unwritten_module_goes_on:
  "ngx_wasm_wasmtime_load env_module_unwritten one_api [] running =
     Some (Some (8, plugin_ok\<lparr>p_module := 99\<rparr>),
       emits [ModuleNew (Some (WasmtimeError 20 ''failed to parse WebAssembly module''))
                (Some 99),
         New Store (Some 3), StoreContext 3 4,
         New WasiConfig (Some 5), WasiInherit ''argv'' 5,
         WasiInherit ''env'' 5, WasiInherit ''stdin'' 5,
         WasiInherit ''stdout'' 5, WasiInherit ''stderr'' 5,
         SetWasi 4 5 None, New Linker (Some 6), DefineWasi 6 None,
         Log NGX_LOG_DEBUG [Text ''define wasm host API '', Text ''proxy_log''],
         New Functype (Some 7), DefineFunc 6 ''proxy_log'' 7 None,
         Delete Functype 7, New PluginRec (Some 8),
         Instantiate 6 4 99 None None,
         Log NGX_LOG_INFO [Text ''loaded wasm plugin'']] running)"
  by (simp add: ngx_wasm_wasmtime_load_def env_defs Let_def trace_defs)

text \<open>
  When the module pointer is \<^verbatim>\<open>NULL\<close> after \<^verbatim>\<open>wasmtime_module_new\<close>, which is what line 82
  tests, load returns \<^verbatim>\<open>NULL\<close> and the call of \<^verbatim>\<open>wasmtime_module_new\<close> is the only thing
  it did: no store and no linker was asked for.
\<close>

theorem load_compile_failure_allocates_nothing:
  assumes "wasmtime_module_new env (vm_engine s) bytecode = (error, None)"
  shows "ngx_wasm_wasmtime_load env host_apis bytecode s =
           Some (None, emit (ModuleNew error None) s)"
  using assms by (simp add: ngx_wasm_wasmtime_load_def Let_def)

theorem load_compile_failure_allocates_nothing_witness:
  "ngx_wasm_wasmtime_load env_ok one_api [0x00, 0x61] running =
     Some (None,
       emit (ModuleNew (Some (WasmtimeError 20 ''failed to parse WebAssembly module'')) None)
         running)"
  using load_compile_failure_allocates_nothing
          [where env = env_ok and s = running and bytecode = "[0x00, 0x61]"
             and host_apis = one_api]
  by (simp add: env_ok_def wasm_magic_def)

subsection \<open>Call\<close>

text \<open>
  Claim C3. For every plugin and every name that is not among the exports, call returns
  \<open>NGX_OK\<close>; nothing is invoked and nothing but the trace changes: the lookup and two debug
  lines are all that was added.
\<close>

theorem call_absent_export_ok:
  assumes "wasmtime_instance_export_get env (p_context plugin) (p_instance plugin) name = None"
  shows "ngx_wasm_wasmtime_call K env plugin name has_result param_type args s =
     Some (NGX_OK,
           emits [Log NGX_LOG_DEBUG [Text ''wasmtime call function '', Text name],
                  ExportGet (p_context plugin) (p_instance plugin) name False,
                  Log NGX_LOG_DEBUG [Text ''wasmtime function '', Text name,
                                     Text '' not defined'']] s)"
  using assms by (simp add: ngx_wasm_wasmtime_call_def Let_def trace_defs)

theorem call_absent_export_ok_witness:
  "ngx_wasm_wasmtime_call tags env_ok plugin_ok ''on_request'' False 1 [] running =
     Some (NGX_OK,
           emits [Log NGX_LOG_DEBUG [Text ''wasmtime call function '', Text ''on_request''],
                  ExportGet 4 9 ''on_request'' False,
                  Log NGX_LOG_DEBUG [Text ''wasmtime function '', Text ''on_request'',
                                     Text '' not defined'']] running)"
  using call_absent_export_ok
          [where env = env_ok and plugin = plugin_ok and name = "''on_request''" and K = tags
             and has_result = False and param_type = 1 and args = "[]" and s = running]
  by (simp add: env_ok_def plugin_ok_def)

text \<open>
  Claim C4. With the two-\<open>i32\<close> shape and a result asked for, when the export is there and
  its call returns neither error nor trap and leaves a value of kind \<open>i32\<close>, call returns
  that value as it is (sign-extended to \<^verbatim>\<open>ngx_int_t\<close>). The parameters passed are the two
  slots of the static array with the two arguments stored in them.
\<close>

theorem call_i32_i32_returns_guest_result:
  assumes "wasmtime_instance_export_get env (p_context plugin) (p_instance plugin) name
             = Some func"
    and "param_type = NGX_WASM_PARAM_I32_I32 K"
    and "out = func [(fst (param_int32_int32 s))\<lparr>of_i32 := a\<rparr>,
                     (snd (param_int32_int32 s))\<lparr>of_i32 := b\<rparr>] 1"
    and "co_error out = None" and "co_trap out = None"
    and "kind (co_results0 out) = WASMTIME_I32"
  shows "map_option fst
           (ngx_wasm_wasmtime_call K env plugin name True param_type (a # b # rest) s)
         = Some (sint (of_i32 (co_results0 out)))"
  using assms
  by (simp add: ngx_wasm_wasmtime_call_def switch_param_type_def invoke_func_def Let_def
        trace_defs)

theorem call_i32_i32_returns_guest_result_witness:
  "map_option fst (ngx_wasm_wasmtime_call tags env_ok plugin_ok ''add'' True 2 [2, 3] running)
     = Some 5"
  using call_i32_i32_returns_guest_result
          [where env = env_ok and plugin = plugin_ok and name = "''add''" and func = guest_add
             and param_type = 2 and K = tags and s = running and a = 2 and b = 3
             and rest = "[]"]
  by (simp add: env_defs guest_defs)

text \<open>
  Claim C7, as stated: every call with a shape tag outside the supported set reports the
  unsupported shape and returns failure. The lookup of the export comes first: with a name
  that is not exported, the tag 99 is never looked at, the call returns \<open>NGX_OK\<close> and logs
  no error.
\<close>

theorem call_unknown_shape_absent_export_ok:
  "ngx_wasm_wasmtime_call tags env_ok plugin_ok ''on_request'' False 99 [] running =
     Some (NGX_OK,
           emits [Log NGX_LOG_DEBUG [Text ''wasmtime call function '', Text ''on_request''],
                  ExportGet 4 9 ''on_request'' False,
                  Log NGX_LOG_DEBUG [Text ''wasmtime function '', Text ''on_request'',
                                     Text '' not defined'']] running)
   \<and> 99 \<noteq> NGX_WASM_PARAM_VOID tags \<and> 99 \<noteq> NGX_WASM_PARAM_I32_I32 tags
   \<and> NGX_OK \<noteq> NGX_ERROR"
  by (simp add: ngx_wasm_wasmtime_call_def env_ok_def plugin_ok_def tags_def Let_def
        trace_defs NGX_OK_def NGX_ERROR_def)

text \<open>
  Claim C7, amended: for every call whose export is present and whose shape tag is outside
  the supported set (void, or two 32-bit integers), call logs the unknown parameter type
  as an error and returns \<open>NGX_ERROR\<close> at once: no invocation is among the calls made.
\<close>

theorem call_unknown_shape_error:
  assumes "wasmtime_instance_export_get env (p_context plugin) (p_instance plugin) name
             = Some func"
    and "param_type \<noteq> NGX_WASM_PARAM_VOID K"
    and "param_type \<noteq> NGX_WASM_PARAM_I32_I32 K"
  shows "ngx_wasm_wasmtime_call K env plugin name has_result param_type args s =
     Some (NGX_ERROR,
           emits [Log NGX_LOG_DEBUG [Text ''wasmtime call function '', Text name],
                  ExportGet (p_context plugin) (p_instance plugin) name True,
                  Log NGX_LOG_ERR [Text ''unknown param type: '', Num param_type]] s)"
  using assms
  by (simp add: ngx_wasm_wasmtime_call_def switch_param_type_def Let_def trace_defs)

theorem call_unknown_shape_error_witness:
  "ngx_wasm_wasmtime_call tags env_ok plugin_ok ''add'' True 99 [2, 3] running =
     Some (NGX_ERROR,
           emits [Log NGX_LOG_DEBUG [Text ''wasmtime call function '', Text ''add''],
                  ExportGet 4 9 ''add'' True,
                  Log NGX_LOG_ERR [Text ''unknown param type: '', Num 99]] running)"
  using call_unknown_shape_error
          [where env = env_ok and plugin = plugin_ok and name = "''add''" and func = guest_add
             and param_type = 99 and K = tags and s = running and args = "[2, 3]"
             and has_result = True]
  by (simp add: env_ok_def plugin_ok_def tags_def)

text \<open>
  Claim C8. When a result is asked for and the export, invoked with the parameters the
  switch prepared, returns neither error nor trap but leaves a value whose kind is not
  \<open>i32\<close>, call logs the unexpected kind as an error and returns \<open>NGX_ERROR\<close>.
\<close>

theorem call_result_kind_mismatch:
  assumes "wasmtime_instance_export_get env (p_context plugin) (p_instance plugin) name
             = Some func"
    and "switch_param_type K param_type args
           (emits [Log NGX_LOG_DEBUG [Text ''wasmtime call function '', Text name],
                   ExportGet (p_context plugin) (p_instance plugin) name True] s)
         = Some (Inr (params, s'))"
    and "out = func params 1"
    and "co_error out = None" and "co_trap out = None"
    and "kind (co_results0 out) \<noteq> WASMTIME_I32"
  shows "ngx_wasm_wasmtime_call K env plugin name True param_type args s =
     Some (NGX_ERROR,
           emits [FuncCall name params 1,
                  Log NGX_LOG_ERR [Text ''function returns unexpected type: '',
                                   Num (uint (kind (co_results0 out)))]] s')"
  using assms
  by (simp add: ngx_wasm_wasmtime_call_def invoke_func_def Let_def trace_defs)

theorem call_result_kind_mismatch_witness:
  "ngx_wasm_wasmtime_call tags env_ok plugin_ok ''wide'' True 1 [] running =
     Some (NGX_ERROR,
           emits [Log NGX_LOG_DEBUG [Text ''wasmtime call function '', Text ''wide''],
                  ExportGet 4 9 ''wide'' True,
                  FuncCall ''wide'' [] 1,
                  Log NGX_LOG_ERR [Text ''function returns unexpected type: '', Num 1]]
             running)"
  using call_result_kind_mismatch
          [where env = env_ok and plugin = plugin_ok and name = "''wide''"
             and func = guest_wide and param_type = 1 and K = tags and s = running
             and args = "[]" and params = "[]"
             and s' = "emits [Log NGX_LOG_DEBUG [Text ''wasmtime call function '',
                                                  Text ''wide''],
                              ExportGet 4 9 ''wide'' True] running"]
  by (simp add: env_ok_def plugin_ok_def tags_def guest_defs switch_param_type_def emits_def)

text \<open>
  When the invocation returns an error or a trap, call passes both to the reporter under
  the text \<open>failed to call function: \<close> and returns \<open>NGX_ERROR\<close>.
\<close>

theorem call_failure_reported:
  assumes "wasmtime_instance_export_get env (p_context plugin) (p_instance plugin) name
             = Some func"
    and "switch_param_type K param_type args
           (emits [Log NGX_LOG_DEBUG [Text ''wasmtime call function '', Text name],
                   ExportGet (p_context plugin) (p_instance plugin) name True] s)
         = Some (Inr (params, s'))"
    and "n = (if has_result then 1 else 0)"
    and "co_error (func params n) = Some e \<or> co_trap (func params n) = Some t"
  shows "\<exists>s''. ngx_wasm_wasmtime_report_error ''failed to call function: ''
                 (co_error (func params n)) (co_trap (func params n))
                 (emit (FuncCall name params n) s') = Some s'' \<and>
          ngx_wasm_wasmtime_call K env plugin name has_result param_type args s =
            Some (NGX_ERROR, s'')"
proof -
  let ?s = "emit (FuncCall name params n) s'"
  obtain s'' where r:
    "ngx_wasm_wasmtime_report_error ''failed to call function: ''
       (co_error (func params n)) (co_trap (func params n)) ?s = Some s''"
    using assms(4)
    by (cases "co_error (func params n)")
       (auto simp add: ngx_wasm_wasmtime_report_error_def)
  have "ngx_wasm_wasmtime_call K env plugin name has_result param_type args s =
          Some (NGX_ERROR, s'')"
    using assms r
    by (auto simp add: ngx_wasm_wasmtime_call_def invoke_func_def Let_def emit_def emits_def)
  with r show ?thesis by blast
qed

theorem call_failure_reported_witness:
  "ngx_wasm_wasmtime_call tags env_ok plugin_ok ''unreachable'' False 1 [] running =
     Some (NGX_ERROR,
           emits [Log NGX_LOG_DEBUG [Text ''wasmtime call function '', Text ''unreachable''],
                  ExportGet 4 9 ''unreachable'' True,
                  FuncCall ''unreachable'' [] 0,
                  TrapMessage 31, Delete TrapObj 31,
                  Log NGX_LOG_ERR [Text ''failed to call function: '',
                                   Text ''wasm trap: unreachable''],
                  ByteVecDelete ''wasm trap: unreachable''] running)"
  using call_failure_reported
          [where env = env_ok and plugin = plugin_ok and name = "''unreachable''"
             and func = guest_unreachable and param_type = 1 and K = tags and s = running
             and args = "[]" and params = "[]" and has_result = False and n = 0
             and t = "WasmTrap 31 ''wasm trap: unreachable''"
             and s' = "emits [Log NGX_LOG_DEBUG [Text ''wasmtime call function '',
                                                  Text ''unreachable''],
                              ExportGet 4 9 ''unreachable'' True] running"]
  by (simp add: env_ok_def plugin_ok_def tags_def guest_defs switch_param_type_def
        trace_defs)

text \<open>
  Claim C10. The failure status and the guest's result share one integer: \<open>NGX_ERROR\<close> is
  \<open>-1\<close>, the value of the 32-bit result \<open>-1\<close>. The export \<open>minus_one\<close> returns without error
  or trap and leaves the \<open>i32\<close> value \<open>-1\<close>; its call takes the success path (the export is
  invoked, the result is logged at debug level, no error is logged) and returns
  \<open>NGX_ERROR\<close>. The same value is returned by a call with an unsupported shape, by a call
  whose export traps, and by a call whose result has the wrong kind, each on its error
  path; only the trace tells the four apart.
\<close>

theorem guest_minus_one_returns_error_status:
  "NGX_ERROR = - 1 \<and> sint (- 1 :: 32 word) = NGX_ERROR \<and>
   wasmtime_instance_export_get env_ok 4 9 ''minus_one'' = Some guest_minus_one \<and>
   guest_minus_one [] 1 =
     \<lparr>co_error = None, co_trap = None,
      co_results0 = \<lparr>kind = WASMTIME_I32, of_i32 = - 1\<rparr>\<rparr> \<and>
   ngx_wasm_wasmtime_call tags env_ok plugin_ok ''minus_one'' True 1 [] running =
     Some (NGX_ERROR,
           emits [Log NGX_LOG_DEBUG [Text ''wasmtime call function '', Text ''minus_one''],
                  ExportGet 4 9 ''minus_one'' True,
                  FuncCall ''minus_one'' [] 1,
                  Log NGX_LOG_DEBUG [Text ''wasmtime call function result: '', Num (- 1)]]
             running) \<and>
   ngx_wasm_wasmtime_call tags env_ok plugin_ok ''minus_one'' True 99 [] running =
     Some (NGX_ERROR,
           emits [Log NGX_LOG_DEBUG [Text ''wasmtime call function '', Text ''minus_one''],
                  ExportGet 4 9 ''minus_one'' True,
                  Log NGX_LOG_ERR [Text ''unknown param type: '', Num 99]] running) \<and>
   ngx_wasm_wasmtime_call tags env_ok plugin_ok ''unreachable'' True 1 [] running =
     Some (NGX_ERROR,
           emits [Log NGX_LOG_DEBUG [Text ''wasmtime call function '', Text ''unreachable''],
                  ExportGet 4 9 ''unreachable'' True,
                  FuncCall ''unreachable'' [] 1,
                  TrapMessage 31, Delete TrapObj 31,
                  Log NGX_LOG_ERR [Text ''failed to call function: '',
                                   Text ''wasm trap: unreachable''],
                  ByteVecDelete ''wasm trap: unreachable''] running) \<and>
   ngx_wasm_wasmtime_call tags env_ok plugin_ok ''wide'' True 1 [] running =
     Some (NGX_ERROR,
           emits [Log NGX_LOG_DEBUG [Text ''wasmtime call function '', Text ''wide''],
                  ExportGet 4 9 ''wide'' True,
                  FuncCall ''wide'' [] 1,
                  Log NGX_LOG_ERR [Text ''function returns unexpected type: '', Num 1]]
             running)"
  by (simp add: ngx_wasm_wasmtime_call_def switch_param_type_def invoke_func_def Let_def
        trace_defs env_ok_def plugin_ok_def tags_def guest_defs NGX_ERROR_def)

subsection \<open>Cleanup\<close>

text \<open>
  Claim C9. Cleanup does nothing when there is no engine, which is the case at program
  start and after an \<open>init\<close> whose engine could not be created; when there is an engine it
  logs and destroys it.
\<close>

theorem cleanup_engine:
  "(vm_engine s = None \<longrightarrow> ngx_wasm_wasmtime_cleanup s = s) \<and>
   (wasm_engine_new env = None \<longrightarrow>
      ngx_wasm_wasmtime_cleanup (snd (ngx_wasm_wasmtime_init env s)) =
        snd (ngx_wasm_wasmtime_init env s)) \<and>
   (vm_engine s = Some e \<longrightarrow>
      ngx_wasm_wasmtime_cleanup s =
        emits [Log NGX_LOG_INFO [Text ''cleanup wasm vm: wasmtime''], Delete Engine e] s)"
  by (simp add: ngx_wasm_wasmtime_cleanup_def ngx_wasm_wasmtime_init_def Let_def trace_defs)

theorem cleanup_engine_witness:
  "ngx_wasm_wasmtime_cleanup initial_state = initial_state \<and>
   ngx_wasm_wasmtime_cleanup
     (snd (ngx_wasm_wasmtime_init (env_ok\<lparr>wasm_engine_new := None\<rparr>) initial_state)) =
     snd (ngx_wasm_wasmtime_init (env_ok\<lparr>wasm_engine_new := None\<rparr>) initial_state) \<and>
   ngx_wasm_wasmtime_cleanup running =
     emits [Log NGX_LOG_INFO [Text ''cleanup wasm vm: wasmtime''], Delete Engine 1] running"
  using cleanup_engine [where s = initial_state and env = "env_ok\<lparr>wasm_engine_new := None\<rparr>"]
        cleanup_engine [where s = running and e = 1]
  by (simp add: initial_state_def running_def)

end
